theory Spec2Isabelle
  imports Main "HOL-Library.AList" "HOL-Library.Sublist"
begin

section \<open>JavaScript values and objects\<close>

text \<open>
  The recipes and the settings of \<^verbatim>\<open>app.js\<close> are plain JavaScript objects whose
  fields hold JSON values. A field that is absent reads as \<^verbatim>\<open>undefined\<close>: it is
  \<open>None\<close> in the map. Nested objects and arrays occur in no operation modelled here.

  The file \<^verbatim>\<open>src/app.js\<close> holds three revisions of the application, one after
  the other. The model follows the last one, from line 656 on, the revision with the
  cloud store; the line numbers below are those of the file.
\<close>

datatype jsval = JNull | JBool bool | JNum int | JStr string

type_synonym obj = "string \<rightharpoonup> jsval"

text \<open>JavaScript's truthiness, as \<^verbatim>\<open>if (x)\<close>, \<^verbatim>\<open>!x\<close> and \<^verbatim>\<open>&&\<close> read a value.\<close>

fun truthy :: "jsval option \<Rightarrow> bool" where
  "truthy None = False"
| "truthy (Some JNull) = False"
| "truthy (Some (JBool b)) = b"
| "truthy (Some (JNum n)) = (n \<noteq> 0)"
| "truthy (Some (JStr s)) = (s \<noteq> [])"

text \<open>
  The object store \<^verbatim>\<open>recipes\<close> is created with \<^verbatim>\<open>keyPath: 'barcode'\<close>. IndexedDB
  takes a string or a number as a key; \<^verbatim>\<open>null\<close>, a boolean and \<^verbatim>\<open>undefined\<close>
  are no keys, and a request with such a key throws \<^verbatim>\<open>DataError\<close>.
\<close>

fun valid_key :: "jsval \<Rightarrow> bool" where
  "valid_key (JStr s) = True"
| "valid_key (JNum n) = True"
| "valid_key JNull = False"
| "valid_key (JBool b) = False"

datatype error = DataError | WriteFailed | ReadFailed | RemoteFailed | UploadFailed

section \<open>The state of the application and of its collaborators\<close>

text \<open>
  \<^verbatim>\<open>class CloudStore\<close>: \<open>db\<close> tells whether \<^verbatim>\<open>this.db\<close> is set, that is whether
  \<^verbatim>\<open>initializeApp\<close> and \<^verbatim>\<open>getFirestore\<close> returned without throwing.
\<close>

record CloudStore =
  db :: bool
  userId :: "jsval option"

text \<open>
  One record holds what the operations read and write:
  \<^item> \<open>idb\<close>: the IndexedDB object store \<^verbatim>\<open>recipes\<close>, keyed by \<^verbatim>\<open>barcode\<close>;
  \<^item> \<open>settings_item\<close>: the local storage item \<^verbatim>\<open>recipe_scan_settings\<close>, parsed;
  \<^item> \<open>cloud\<close>: the field \<^verbatim>\<open>UI.cloud\<close> (\<open>None\<close> is \<^verbatim>\<open>null\<close>);
  \<^item> \<open>fs_recipes\<close>, \<open>fs_settings\<close>: the Firestore documents of the configured user,
    \<^verbatim>\<open>users/{userId}/recipes/*\<close> by document id and \<^verbatim>\<open>users/{userId}/config/appSettings\<close>;
  \<^item> \<open>clock\<close>: the wall clock in milliseconds, when the next operation is called;
  \<^item> \<open>errlog\<close>: what \<^verbatim>\<open>console.error\<close> printed, each entry the message and the
    error caught; \<open>alerts\<close>: what \<^verbatim>\<open>alert\<close> showed to the user;
  \<^item> \<open>view\<close>: the active view; \<open>online\<close>: the class \<^verbatim>\<open>online\<close> of the sync badge;
  \<^item> \<open>capturedImage\<close>: the field \<^verbatim>\<open>UI.capturedImage\<close>.

  The rendering of lists and cards, the scanner and the form inputs of the settings
  view are presentation and are left out. An operation runs to its end before the
  next one starts: the interleaving of two asynchronous operations is not modelled,
  and the effect of a call that is not awaited is applied where the call is made.
\<close>

record world =
  idb :: "jsval \<rightharpoonup> obj"
  settings_item :: "obj option"
  cloud :: "CloudStore option"
  fs_recipes :: "(string \<times> obj) list"
  fs_settings :: "obj option"
  clock :: nat
  errlog :: "(string \<times> error) list"
  alerts :: "string list"
  view :: string
  online :: bool
  capturedImage :: "string option"

text \<open>
  What the environment decides for one IndexedDB write: \<open>lag\<close> is the time between
  the call and the reading of the clock by \<^verbatim>\<open>new Date()\<close> (the clock is taken to
  be monotone), \<open>accepted\<close> tells whether the request ends in \<^verbatim>\<open>onsuccess\<close>.
\<close>

record idb_io =
  lag :: nat
  accepted :: bool

section \<open>RecipeStore: the local store\<close>

text \<open>
  \<^verbatim>\<open>RecipeStore.saveRecipe\<close> (lines 757-766). \<open>toISOString\<close> is the builtin that
  formats an instant, taken as a parameter. The assignment to \<^verbatim>\<open>recipe.date\<close>
  changes the caller's object, so the object is returned beside the result.
\<close>

definition RecipeStore_saveRecipe ::
  "(nat \<Rightarrow> string) \<Rightarrow> idb_io \<Rightarrow> obj \<Rightarrow> world \<Rightarrow> (error + unit) \<times> obj \<times> world" where
  "RecipeStore_saveRecipe toISOString io recipe w =
     (let now = clock w + lag io;
          recipe' = recipe(''date'' \<mapsto> JStr (toISOString now));
          w' = w\<lparr>clock := now\<rparr>
      in case recipe' ''barcode'' of
           None \<Rightarrow> (Inl DataError, recipe', w')
         | Some k \<Rightarrow>
             if \<not> valid_key k then (Inl DataError, recipe', w')
             else if \<not> accepted io then (Inl WriteFailed, recipe', w')
             else (Inr (), recipe', w'\<lparr>idb := (idb w')(k \<mapsto> recipe')\<rparr>))"

text \<open>
  \<^verbatim>\<open>RecipeStore.getRecipe\<close> (lines 768-776): \<^verbatim>\<open>request.result\<close> is
  \<^verbatim>\<open>undefined\<close> (\<open>None\<close>) when no record has the key.
\<close>

definition RecipeStore_getRecipe :: "bool \<Rightarrow> jsval option \<Rightarrow> world \<Rightarrow> error + obj option" where
  "RecipeStore_getRecipe ok barcode w =
     (case barcode of
        None \<Rightarrow> Inl DataError
      | Some k \<Rightarrow>
          if \<not> valid_key k then Inl DataError
          else if \<not> ok then Inl ReadFailed
          else Inr (idb w k))"

text \<open>\<^verbatim>\<open>RecipeStore.deleteRecipe\<close> (lines 788-796).\<close>

definition RecipeStore_deleteRecipe ::
  "bool \<Rightarrow> jsval option \<Rightarrow> world \<Rightarrow> (error + unit) \<times> world" where
  "RecipeStore_deleteRecipe ok barcode w =
     (case barcode of
        None \<Rightarrow> (Inl DataError, w)
      | Some k \<Rightarrow>
          if \<not> valid_key k then (Inl DataError, w)
          else if \<not> ok then (Inl WriteFailed, w)
          else (Inr (), w\<lparr>idb := (idb w)(k := None)\<rparr>))"

section \<open>CloudStore: the remote store\<close>

text \<open>
  \<^verbatim>\<open>CloudStore.constructor\<close> (lines 673-693): a failure of \<^verbatim>\<open>initializeApp\<close> is
  caught and logged, and leaves \<^verbatim>\<open>this.db\<close> at \<^verbatim>\<open>null\<close>; the object is built
  all the same. \<open>init_ok\<close> tells whether the Firebase calls returned.
\<close>

definition CloudStore_constructor :: "bool \<Rightarrow> obj \<Rightarrow> CloudStore" where
  "CloudStore_constructor init_ok config = \<lparr>db = init_ok, userId = config ''userId''\<rparr>"

text \<open>
  Every method starts with \<^verbatim>\<open>if (!this.db || !this.userId) return\<close>. Past that
  guard the call goes to the Firestore SDK; \<open>net\<close> tells whether the SDK and the
  network carry it out (\<open>False\<close>: the promise is rejected). The document id is
  \<^verbatim>\<open>recipe.barcode\<close>, a path segment, which the SDK takes only as a string.
  \<^verbatim>\<open>setDoc\<close> without options replaces the document.
\<close>

definition CloudStore_saveRecipe ::
  "bool \<Rightarrow> CloudStore \<Rightarrow> obj \<Rightarrow> world \<Rightarrow> (error + unit) \<times> world" where
  "CloudStore_saveRecipe net c recipe w =
     (if \<not> db c \<or> \<not> truthy (userId c) then (Inr (), w)
      else case recipe ''barcode'' of
             Some (JStr b) \<Rightarrow>
               if net then (Inr (), w\<lparr>fs_recipes := AList.update b recipe (fs_recipes w)\<rparr>)
               else (Inl RemoteFailed, w)
           | _ \<Rightarrow> (Inl RemoteFailed, w))"

definition CloudStore_deleteRecipe ::
  "bool \<Rightarrow> CloudStore \<Rightarrow> jsval option \<Rightarrow> world \<Rightarrow> (error + unit) \<times> world" where
  "CloudStore_deleteRecipe net c barcode w =
     (if \<not> db c \<or> \<not> truthy (userId c) then (Inr (), w)
      else case barcode of
             Some (JStr b) \<Rightarrow>
               if net then (Inr (), w\<lparr>fs_recipes := AList.delete b (fs_recipes w)\<rparr>)
               else (Inl RemoteFailed, w)
           | _ \<Rightarrow> (Inl RemoteFailed, w))"

definition CloudStore_getAllRecipes :: "bool \<Rightarrow> CloudStore \<Rightarrow> world \<Rightarrow> error + obj list" where
  "CloudStore_getAllRecipes net c w =
     (if \<not> db c \<or> \<not> truthy (userId c) then Inr []
      else if net then Inr (map snd (fs_recipes w))
      else Inl RemoteFailed)"

definition CloudStore_saveSettings ::
  "bool \<Rightarrow> CloudStore \<Rightarrow> obj \<Rightarrow> world \<Rightarrow> (error + unit) \<times> world" where
  "CloudStore_saveSettings net c settings w =
     (if \<not> db c \<or> \<not> truthy (userId c) then (Inr (), w)
      else if net then (Inr (), w\<lparr>fs_settings := Some settings\<rparr>)
      else (Inl RemoteFailed, w))"

definition CloudStore_getSettings :: "bool \<Rightarrow> CloudStore \<Rightarrow> world \<Rightarrow> error + obj option" where
  "CloudStore_getSettings net c w =
     (if \<not> db c \<or> \<not> truthy (userId c) then Inr None
      else if net then Inr (fs_settings w)
      else Inl RemoteFailed)"

section \<open>Settings: the local settings\<close>

text \<open>
  \<^verbatim>\<open>Settings.get\<close> parses the item, or \<^verbatim>\<open>'{}'\<close> when there is none;
  \<^verbatim>\<open>Settings.save\<close> writes the object back (lines 851-858).
\<close>

definition Settings_get :: "world \<Rightarrow> obj" where
  "Settings_get w = (case settings_item w of None \<Rightarrow> Map.empty | Some s \<Rightarrow> s)"

definition Settings_save :: "obj \<Rightarrow> world \<Rightarrow> world" where
  "Settings_save settings w = w\<lparr>settings_item := Some settings\<rparr>"

section \<open>UI: the controller\<close>

text \<open>\<^verbatim>\<open>UI.initCloud\<close> (lines 883-901).\<close>

definition UI_initCloud :: "bool \<Rightarrow> world \<Rightarrow> world" where
  "UI_initCloud init_ok w =
     (let settings = Settings_get w in
      if truthy (settings ''fbApiKey'') \<and> truthy (settings ''fbProjectId'') \<and>
         truthy (settings ''fbAppId'') \<and> truthy (settings ''fbUserId'')
      then w\<lparr>cloud := Some (CloudStore_constructor init_ok
                (\<lambda>f. if f = ''apiKey'' then settings ''fbApiKey''
                      else if f = ''authDomain'' then settings ''fbAuthDomain''
                      else if f = ''projectId'' then settings ''fbProjectId''
                      else if f = ''storageBucket'' then settings ''fbStorageBucket''
                      else if f = ''messagingSenderId'' then settings ''fbMessagingSenderId''
                      else if f = ''appId'' then settings ''fbAppId''
                      else if f = ''measurementId'' then settings ''fbMeasurementId''
                      else if f = ''userId'' then settings ''fbUserId''
                      else None)),
              online := True\<rparr>
      else w\<lparr>cloud := None, online := False\<rparr>)"

text \<open>
  \<^verbatim>\<open>UI.switchView\<close> (lines 1008-1025), as far as the state above goes: the view
  named becomes the active one.
\<close>

definition UI_switchView :: "string \<Rightarrow> world \<Rightarrow> world" where
  "UI_switchView viewId w = w\<lparr>view := viewId\<rparr>"

text \<open>
  \<^verbatim>\<open>UI.saveRecipe\<close>, lines 1050-1069: the image to store. \<open>upload\<close> is what
  \<^verbatim>\<open>uploadToCloudinary\<close> ends with.
\<close>

definition UI_saveRecipe_image :: "error + string \<Rightarrow> world \<Rightarrow> jsval \<times> world" where
  "UI_saveRecipe_image upload w =
     (let imageUrl = (case capturedImage w of None \<Rightarrow> JNull | Some s \<Rightarrow> JStr s);
          settings = Settings_get w
      in if truthy (settings ''cloudName'') \<and> truthy (settings ''uploadPreset'') \<and>
            (case capturedImage w of None \<Rightarrow> False | Some s \<Rightarrow> s \<noteq> [] \<and> prefix ''data:'' s)
         then (case upload of
                 Inr url \<Rightarrow> (JStr url, w)
               | Inl err \<Rightarrow>
                   (imageUrl,
                    w\<lparr>errlog := errlog w @ [(''Cloudinary Upload Failed:'', err)],
                      alerts := alerts w @
                        [''Cloudinary upload failed. Saving image locally instead.'']\<rparr>))
         else (imageUrl, w))"

text \<open>
  \<^verbatim>\<open>UI.saveRecipe\<close> (lines 1043-1093). The three strings are the values of the
  form's inputs. The mirror call \<^verbatim>\<open>this.cloud.saveRecipe(recipe)\<close> is not awaited:
  its rejection reaches only the \<^verbatim>\<open>catch\<close> that logs it. It is given the object
  that \<^verbatim>\<open>this.store.saveRecipe\<close> has dated.
\<close>

definition UI_saveRecipe ::
  "(nat \<Rightarrow> string) \<Rightarrow> error + string \<Rightarrow> idb_io \<Rightarrow> bool \<Rightarrow>
   string \<Rightarrow> string \<Rightarrow> string \<Rightarrow> world \<Rightarrow> world" where
  "UI_saveRecipe toISOString upload io net barcode name instructions w =
     (if name = [] then w\<lparr>alerts := alerts w @ [''Please enter a name'']\<rparr>
      else
        case UI_saveRecipe_image upload w of (imageUrl, w1) \<Rightarrow>
       (let recipe = Map.empty(''barcode'' \<mapsto> JStr barcode, ''name'' \<mapsto> JStr name,
                      ''instructions'' \<mapsto> JStr instructions, ''image'' \<mapsto> imageUrl)
        in case RecipeStore_saveRecipe toISOString io recipe w1 of
             (Inl err, recipe', w2) \<Rightarrow>
               w2\<lparr>errlog := errlog w2 @ [([], err)],
                  alerts := alerts w2 @ [''Error saving recipe'']\<rparr>
           | (Inr u, recipe', w2) \<Rightarrow>
               let w3 = (case cloud w2 of
                           None \<Rightarrow> w2
                         | Some c \<Rightarrow>
                             (case CloudStore_saveRecipe net c recipe' w2 of
                                (Inl err, w') \<Rightarrow>
                                  w'\<lparr>errlog := errlog w' @ [(''Cloud save failed:'', err)]\<rparr>
                              | (Inr u', w') \<Rightarrow> w'))
               in UI_switchView ''view-home''
                    (w3\<lparr>alerts := alerts w3 @ [''Recipe saved!'']\<rparr>)))"

text \<open>
  \<^verbatim>\<open>UI.confirmDelete\<close> (lines 1194-1218). \<open>confirmed\<close> is the answer to
  \<^verbatim>\<open>confirm\<close>.
\<close>

definition UI_confirmDelete :: "bool \<Rightarrow> bool \<Rightarrow> bool \<Rightarrow> obj \<Rightarrow> world \<Rightarrow> world" where
  "UI_confirmDelete confirmed ok net recipe w =
     (if confirmed then
        case RecipeStore_deleteRecipe ok (recipe ''barcode'') w of
          (Inl err, w1) \<Rightarrow>
            w1\<lparr>errlog := errlog w1 @ [(''Delete failed:'', err)],
               alerts := alerts w1 @ [''Failed to delete recipe.'']\<rparr>
        | (Inr u, w1) \<Rightarrow>
            let w2 = (case cloud w1 of
                        None \<Rightarrow> w1
                      | Some c \<Rightarrow>
                          (case CloudStore_deleteRecipe net c (recipe ''barcode'') w1 of
                             (Inl err, w') \<Rightarrow>
                               w'\<lparr>errlog := errlog w' @ [(''Cloud delete failed:'', err)]\<rparr>
                           | (Inr u', w') \<Rightarrow> w'))
            in if view w2 = ''view-recipe-detail'' then UI_switchView ''view-home'' w2 else w2
      else w)"

text \<open>
  The loop of \<^verbatim>\<open>UI.syncWithCloud\<close> (lines 1228-1230): one awaited
  \<^verbatim>\<open>this.store.saveRecipe\<close> for each record, in order. A rejected write leaves the
  loop for the \<^verbatim>\<open>catch\<close>. \<open>ios i\<close> is what the environment decides for the write
  number \<open>i\<close>.
\<close>

fun syncWithCloud_loop ::
  "(nat \<Rightarrow> string) \<Rightarrow> (nat \<Rightarrow> idb_io) \<Rightarrow> nat \<Rightarrow> obj list \<Rightarrow> world \<Rightarrow> (error + unit) \<times> world" where
  "syncWithCloud_loop toISOString ios i [] w = (Inr (), w)"
| "syncWithCloud_loop toISOString ios i (recipe # rest) w =
     (case RecipeStore_saveRecipe toISOString (ios i) recipe w of
        (Inl err, recipe', w') \<Rightarrow> (Inl err, w')
      | (Inr u, recipe', w') \<Rightarrow> syncWithCloud_loop toISOString ios (Suc i) rest w')"

text \<open>\<^verbatim>\<open>UI.syncWithCloud\<close> (lines 1220-1238).\<close>

definition UI_syncWithCloud ::
  "(nat \<Rightarrow> string) \<Rightarrow> bool \<Rightarrow> (nat \<Rightarrow> idb_io) \<Rightarrow> world \<Rightarrow> world" where
  "UI_syncWithCloud toISOString net ios w =
     (case cloud w of
        None \<Rightarrow> w
      | Some c \<Rightarrow>
          (case CloudStore_getAllRecipes net c w of
             Inl err \<Rightarrow> w\<lparr>errlog := errlog w @ [(''Cloud sync failed:'', err)]\<rparr>
           | Inr cloudRecipes \<Rightarrow>
               (case syncWithCloud_loop toISOString ios 0 cloudRecipes w of
                  (Inl err, w') \<Rightarrow> w'\<lparr>errlog := errlog w' @ [(''Cloud sync failed:'', err)]\<rparr>
                | (Inr u, w') \<Rightarrow> w')))"

text \<open>
  The merge of \<^verbatim>\<open>UI.syncSettingsWithCloud\<close>, line 1250:
  \<^verbatim>\<open>{ ...localSettings, ...cloudSettings }\<close>.
\<close>

definition mergedSettings :: "obj \<Rightarrow> obj \<Rightarrow> obj" where
  "mergedSettings localSettings cloudSettings = localSettings ++ cloudSettings"

text \<open>
  \<^verbatim>\<open>UI.syncSettingsWithCloud\<close> (lines 1240-1258). An object is truthy, so
  \<^verbatim>\<open>if (cloudSettings)\<close> asks only whether the document exists.
\<close>

definition UI_syncSettingsWithCloud :: "bool \<Rightarrow> world \<Rightarrow> world" where
  "UI_syncSettingsWithCloud net w =
     (case cloud w of
        None \<Rightarrow> w
      | Some c \<Rightarrow>
          (case CloudStore_getSettings net c w of
             Inl err \<Rightarrow> w\<lparr>errlog := errlog w @ [(''Cloud settings sync failed:'', err)]\<rparr>
           | Inr None \<Rightarrow> w
           | Inr (Some cloudSettings) \<Rightarrow>
               Settings_save (mergedSettings (Settings_get w) cloudSettings) w))"

text \<open>
  \<^verbatim>\<open>UI.init\<close> (lines 869-881), from \<^verbatim>\<open>initCloud\<close> on: the two syncs start only
  when \<^verbatim>\<open>this.cloud\<close> is set.
\<close>

definition UI_init ::
  "(nat \<Rightarrow> string) \<Rightarrow> bool \<Rightarrow> bool \<Rightarrow> (nat \<Rightarrow> idb_io) \<Rightarrow> bool \<Rightarrow> world \<Rightarrow> world" where
  "UI_init toISOString init_ok net ios net' w =
     (let w1 = UI_initCloud init_ok w in
      if cloud w1 \<noteq> None
      then UI_syncSettingsWithCloud net' (UI_syncWithCloud toISOString net ios w1)
      else w1)"

section \<open>Notions used to state the properties\<close>

text \<open>
  A record has a key when its \<^verbatim>\<open>barcode\<close> is a value that IndexedDB takes as one.
\<close>

definition has_key :: "obj \<Rightarrow> bool" where
  "has_key r = (case r ''barcode'' of None \<Rightarrow> False | Some k \<Rightarrow> valid_key k)"

text \<open>
  The remote version of a key in a list of fetched records: the record with that
  \<^verbatim>\<open>barcode\<close> that comes last in the list, which is the only one when no two
  records share a barcode.
\<close>

definition remote_version :: "obj list \<Rightarrow> jsval \<Rightarrow> obj option" where
  "remote_version cloudRecipes k = List.find (\<lambda>r. r ''barcode'' = Some k) (rev cloudRecipes)"

section \<open>The states of the examples\<close>

text \<open>
  The formatter of the examples gives the ISO-8601 strings of the two instants the
  examples reach, 1001 and 1002 milliseconds after the epoch.
\<close>

definition ex_toISOString :: "nat \<Rightarrow> string" where
  "ex_toISOString t =
     (if t = 1002 then ''1970-01-01T00:00:01.002Z'' else ''1970-01-01T00:00:01.001Z'')"

definition ex_io :: idb_io where
  "ex_io = \<lparr>lag = 1, accepted = True\<rparr>"

definition ex_cloud :: CloudStore where
  "ex_cloud = \<lparr>db = True, userId = Some (JStr ''u1'')\<rparr>"

definition ex_world :: world where
  "ex_world = \<lparr>idb = Map.empty, settings_item = None, cloud = None, fs_recipes = [],
     fs_settings = None, clock = 1000, errlog = [], alerts = [], view = ''view-recipe-entry'',
     online = False, capturedImage = None\<rparr>"

text \<open>
  The startup example: the remote store holds \<open>A\<close> and \<open>B\<close>, the local store holds
  \<open>A'\<close>, with the key of \<open>A\<close>, another title and a later date, and \<open>C\<close>.
\<close>

definition ex_A :: obj where
  "ex_A = Map.empty(''barcode'' \<mapsto> JStr ''111'', ''name'' \<mapsto> JStr ''Negroni'',
            ''date'' \<mapsto> JStr ''1969-07-20T20:17:40.000Z'')"

definition ex_A' :: obj where
  "ex_A' = Map.empty(''barcode'' \<mapsto> JStr ''111'', ''name'' \<mapsto> JStr ''Negroni sbagliato'',
            ''instructions'' \<mapsto> JStr ''Stir.'', ''date'' \<mapsto> JStr ''1969-12-31T23:59:59.000Z'')"

definition ex_B :: obj where
  "ex_B = Map.empty(''barcode'' \<mapsto> JStr ''222'', ''name'' \<mapsto> JStr ''Spritz'')"

definition ex_C :: obj where
  "ex_C = Map.empty(''barcode'' \<mapsto> JStr ''333'', ''name'' \<mapsto> JStr ''Mojito'')"

definition ex_sync :: world where
  "ex_sync = ex_world\<lparr>cloud := Some ex_cloud,
     fs_recipes := [(''111'', ex_A), (''222'', ex_B)],
     idb := Map.empty(JStr ''111'' \<mapsto> ex_A', JStr ''333'' \<mapsto> ex_C)\<rparr>"

definition ex_settings :: world where
  "ex_settings = ex_world\<lparr>cloud := Some ex_cloud,
     settings_item := Some (Map.empty(''cloudName'' \<mapsto> JStr ''x'', ''fbUserId'' \<mapsto> JStr ''u1'')),
     fs_settings := Some (Map.empty(''cloudName'' \<mapsto> JStr ''y''))\<rparr>"

definition ex_configured :: world where
  "ex_configured = ex_world\<lparr>settings_item :=
     Some (Map.empty(''fbApiKey'' \<mapsto> JStr ''key'', ''fbProjectId'' \<mapsto> JStr ''bar'',
             ''fbAppId'' \<mapsto> JStr ''app'', ''fbUserId'' \<mapsto> JStr ''u1''))\<rparr>"

definition ex_blank :: world where
  "ex_blank = ex_world\<lparr>settings_item :=
     Some (Map.empty(''fbApiKey'' \<mapsto> JStr '''', ''fbProjectId'' \<mapsto> JStr ''bar'',
             ''fbAppId'' \<mapsto> JStr ''app'', ''fbUserId'' \<mapsto> JStr ''u1''))\<rparr>"

lemmas ex_defs = ex_toISOString_def ex_io_def ex_cloud_def ex_world_def

lemma ex_barcodes:
  "ex_A ''barcode'' = Some (JStr ''111'')" "ex_A' ''barcode'' = Some (JStr ''111'')"
  "ex_B ''barcode'' = Some (JStr ''222'')" "ex_C ''barcode'' = Some (JStr ''333'')"
  by (simp_all add: ex_A_def ex_A'_def ex_B_def ex_C_def)

section \<open>The local store, step by step\<close>

lemma saveRecipe_accepted:
  assumes "recipe ''barcode'' = Some k" "valid_key k" "accepted io"
  shows "RecipeStore_saveRecipe toISOString io recipe w =
           (Inr (), recipe(''date'' \<mapsto> JStr (toISOString (clock w + lag io))),
            w\<lparr>clock := clock w + lag io,
              idb := (idb w)(k \<mapsto> recipe(''date'' \<mapsto> JStr (toISOString (clock w + lag io))))\<rparr>)"
  using assms by (simp add: RecipeStore_saveRecipe_def Let_def)

lemma saveRecipe_clock:
  "clock (snd (snd (RecipeStore_saveRecipe toISOString io recipe w))) = clock w + lag io"
  by (simp add: RecipeStore_saveRecipe_def Let_def split: option.splits)

lemma saveRecipe_other_key:
  "recipe ''barcode'' \<noteq> Some k \<Longrightarrow>
   idb (snd (snd (RecipeStore_saveRecipe toISOString io recipe w))) k = idb w k"
  by (simp add: RecipeStore_saveRecipe_def Let_def split: option.splits)

lemma saveRecipe_cloud:
  "cloud (snd (snd (RecipeStore_saveRecipe toISOString io recipe w))) = cloud w \<and>
   fs_recipes (snd (snd (RecipeStore_saveRecipe toISOString io recipe w))) = fs_recipes w"
  by (simp add: RecipeStore_saveRecipe_def Let_def split: option.splits)

section \<open>The loop of the startup pull\<close>

lemma loop_clock_mono:
  "clock w \<le> clock (snd (syncWithCloud_loop toISOString ios i rs w))"
proof (induction rs arbitrary: i w)
  case Nil
  show ?case by simp
next
  case (Cons r rs)
  obtain res r' w1 where s: "RecipeStore_saveRecipe toISOString (ios i) r w = (res, r', w1)"
    by (cases "RecipeStore_saveRecipe toISOString (ios i) r w") auto
  have c1: "clock w \<le> clock w1"
    using saveRecipe_clock [of toISOString "ios i" r w] s by simp
  show ?case
  proof (cases res)
    case (Inl e)
    with s c1 show ?thesis by simp
  next
    case (Inr u)
    have "clock w1 \<le> clock (snd (syncWithCloud_loop toISOString ios (Suc i) rs w1))"
      by (rule Cons.IH)
    with s c1 Inr show ?thesis by simp
  qed
qed

lemma loop_other_key:
  "\<forall>r \<in> set rs. r ''barcode'' \<noteq> Some k \<Longrightarrow>
   idb (snd (syncWithCloud_loop toISOString ios i rs w)) k = idb w k"
proof (induction rs arbitrary: i w)
  case Nil
  show ?case by simp
next
  case (Cons r rs)
  obtain res r' w1 where s: "RecipeStore_saveRecipe toISOString (ios i) r w = (res, r', w1)"
    by (cases "RecipeStore_saveRecipe toISOString (ios i) r w") auto
  have k1: "idb w1 k = idb w k"
    using saveRecipe_other_key [of r k toISOString "ios i" w] s Cons.prems by simp
  show ?case
  proof (cases res)
    case (Inl e)
    with s k1 show ?thesis by simp
  next
    case (Inr u)
    have "idb (snd (syncWithCloud_loop toISOString ios (Suc i) rs w1)) k = idb w1 k"
      using Cons.prems by (intro Cons.IH) simp
    with s k1 Inr show ?thesis by simp
  qed
qed

lemma loop_errlog:
  "errlog (snd (syncWithCloud_loop toISOString ios i rs w)) = errlog w"
proof (induction rs arbitrary: i w)
  case Nil
  show ?case by simp
next
  case (Cons r rs)
  have e: "errlog (snd (snd (RecipeStore_saveRecipe toISOString (ios i) r w))) = errlog w"
    by (simp add: RecipeStore_saveRecipe_def Let_def split: option.splits)
  show ?case
  proof (cases "RecipeStore_saveRecipe toISOString (ios i) r w")
    case (fields res r' w1)
    with e have "errlog w1 = errlog w" by simp
    with fields Cons.IH [of "Suc i" w1] show ?thesis
      by (cases res) simp_all
  qed
qed

lemma remote_version_Cons:
  "remote_version (r # rs) k =
     (case remote_version rs k of
        Some r' \<Rightarrow> Some r'
      | None \<Rightarrow> if r ''barcode'' = Some k then Some r else None)"
proof -
  have "List.find P (xs @ [x]) =
          (case List.find P xs of Some y \<Rightarrow> Some y | None \<Rightarrow> if P x then Some x else None)"
    for P :: "obj \<Rightarrow> bool" and xs x
    by (induction xs) simp_all
  then show ?thesis by (simp add: remote_version_def)
qed

lemma remote_version_None:
  "remote_version rs k = None \<longleftrightarrow> (\<forall>r \<in> set rs. r ''barcode'' \<noteq> Some k)"
  by (auto simp: remote_version_def find_None_iff)

lemma loop_result:
  assumes "\<forall>r \<in> set rs. has_key r" and "\<forall>j < length rs. accepted (ios (i + j))"
  shows "fst (syncWithCloud_loop toISOString ios i rs w) = Inr () \<and>
         (\<forall>k. case remote_version rs k of
                 None \<Rightarrow> idb (snd (syncWithCloud_loop toISOString ios i rs w)) k = idb w k
               | Some r \<Rightarrow>
                   \<exists>t. clock w \<le> t \<and> t \<le> clock (snd (syncWithCloud_loop toISOString ios i rs w)) \<and>
                       idb (snd (syncWithCloud_loop toISOString ios i rs w)) k =
                         Some (r(''date'' \<mapsto> JStr (toISOString t))))"
  using assms
proof (induction rs arbitrary: i w)
  case Nil
  show ?case by (simp add: remote_version_def)
next
  case (Cons r rs)
  from Cons.prems(1) obtain kr where kr: "r ''barcode'' = Some kr" "valid_key kr"
    by (auto simp: has_key_def split: option.splits)
  have acc: "accepted (ios i)" using Cons.prems(2) by (metis add.right_neutral length_greater_0_conv list.distinct(1))
  let ?t1 = "clock w + lag (ios i)"
  let ?s1 = "r(''date'' \<mapsto> JStr (toISOString ?t1))"
  let ?w1 = "w\<lparr>clock := ?t1, idb := (idb w)(kr \<mapsto> ?s1)\<rparr>"
  let ?w' = "snd (syncWithCloud_loop toISOString ios (Suc i) rs ?w1)"
  have step: "syncWithCloud_loop toISOString ios i (r # rs) w = syncWithCloud_loop toISOString ios (Suc i) rs ?w1"
    using kr acc by (simp add: saveRecipe_accepted)
  have p1: "\<forall>r \<in> set rs. has_key r" using Cons.prems(1) by simp
  have p2: "\<forall>j < length rs. accepted (ios (Suc i + j))"
  proof (intro allI impI)
    fix j assume "j < length rs"
    then have "Suc j < length (r # rs)" by simp
    with Cons.prems(2) have "accepted (ios (i + Suc j))" by blast
    then show "accepted (ios (Suc i + j))" by simp
  qed
  note IH = Cons.IH [OF p1 p2, of ?w1]
  have mono: "clock ?w1 \<le> clock ?w'" by (rule loop_clock_mono)
  have "\<forall>k. case remote_version (r # rs) k of
              None \<Rightarrow> idb ?w' k = idb w k
            | Some r0 \<Rightarrow> \<exists>t. clock w \<le> t \<and> t \<le> clock ?w' \<and>
                   idb ?w' k = Some (r0(''date'' \<mapsto> JStr (toISOString t)))"
  proof
    fix k
    from IH have ih: "case remote_version rs k of
              None \<Rightarrow> idb ?w' k = idb ?w1 k
            | Some r0 \<Rightarrow> \<exists>t. clock ?w1 \<le> t \<and> t \<le> clock ?w' \<and>
                   idb ?w' k = Some (r0(''date'' \<mapsto> JStr (toISOString t)))"
      by blast
    show "case remote_version (r # rs) k of
              None \<Rightarrow> idb ?w' k = idb w k
            | Some r0 \<Rightarrow> \<exists>t. clock w \<le> t \<and> t \<le> clock ?w' \<and>
                   idb ?w' k = Some (r0(''date'' \<mapsto> JStr (toISOString t)))"
    proof (cases "remote_version rs k")
      case (Some r0)
      with ih obtain t where "clock ?w1 \<le> t" "t \<le> clock ?w'"
        "idb ?w' k = Some (r0(''date'' \<mapsto> JStr (toISOString t)))" by auto
      moreover have "clock w \<le> clock ?w1" by simp
      ultimately have "\<exists>t. clock w \<le> t \<and> t \<le> clock ?w' \<and>
                   idb ?w' k = Some (r0(''date'' \<mapsto> JStr (toISOString t)))"
        using le_trans by blast
      with Some show ?thesis by (simp add: remote_version_Cons)
    next
      case None
      with ih have eq: "idb ?w' k = idb ?w1 k" by simp
      show ?thesis
      proof (cases "kr = k")
        case True
        have "clock w \<le> ?t1 \<and> ?t1 \<le> clock ?w' \<and> idb ?w' k = Some ?s1"
          using eq True mono by simp
        then have "\<exists>t. clock w \<le> t \<and> t \<le> clock ?w' \<and>
                   idb ?w' k = Some (r(''date'' \<mapsto> JStr (toISOString t)))" by blast
        with None True kr show ?thesis by (simp add: remote_version_Cons)
      next
        case False
        with eq have "idb ?w' k = idb w k" by simp
        with None False kr show ?thesis by (simp add: remote_version_Cons)
      qed
    qed
  qed
  moreover have "fst (syncWithCloud_loop toISOString ios (Suc i) rs ?w1) = Inr ()"
    using IH by blast
  ultimately show ?case unfolding step by blast
qed

lemma syncWithCloud_loop_run:
  assumes "cloud w = Some c" and "db c" and "truthy (userId c)"
  shows "UI_syncWithCloud toISOString True ios w =
           (case syncWithCloud_loop toISOString ios 0 (map snd (fs_recipes w)) w of
              (Inl err, w') \<Rightarrow> w'\<lparr>errlog := errlog w' @ [(''Cloud sync failed:'', err)]\<rparr>
            | (Inr u, w') \<Rightarrow> w')"
  using assms by (simp add: UI_syncWithCloud_def CloudStore_getAllRecipes_def)

lemma syncWithCloud_ok:
  assumes "cloud w = Some c" and "db c" and "truthy (userId c)"
    and "\<forall>r \<in> set (map snd (fs_recipes w)). has_key r"
    and "\<forall>i < length (fs_recipes w). accepted (ios i)"
  shows "UI_syncWithCloud toISOString True ios w =
           snd (syncWithCloud_loop toISOString ios 0 (map snd (fs_recipes w)) w)"
proof -
  have "fst (syncWithCloud_loop toISOString ios 0 (map snd (fs_recipes w)) w) = Inr ()"
    using loop_result [of "map snd (fs_recipes w)" ios 0 toISOString w] assms(4,5) by simp
  then show ?thesis
    using assms(1-3)
    by (cases "syncWithCloud_loop toISOString ios 0 (map snd (fs_recipes w)) w")
       (simp add: syncWithCloud_loop_run)
qed

lemma syncWithCloud_other_key:
  assumes "\<forall>r \<in> set (map snd (fs_recipes w)). r ''barcode'' \<noteq> Some k"
  shows "idb (UI_syncWithCloud toISOString net ios w) k = idb w k"
proof (cases "cloud w")
  case None
  then show ?thesis by (simp add: UI_syncWithCloud_def)
next
  case (Some c)
  show ?thesis
  proof (cases "CloudStore_getAllRecipes net c w")
    case (Inl e)
    with Some show ?thesis by (simp add: UI_syncWithCloud_def)
  next
    case (Inr rs)
    then have "set rs \<subseteq> set (map snd (fs_recipes w))"
      by (auto simp: CloudStore_getAllRecipes_def split: if_splits)
    with assms have "\<forall>r \<in> set rs. r ''barcode'' \<noteq> Some k" by blast
    then have "idb (snd (syncWithCloud_loop toISOString ios 0 rs w)) k = idb w k"
      by (rule loop_other_key)
    with Some Inr show ?thesis
      by (cases "syncWithCloud_loop toISOString ios 0 rs w")
         (auto simp: UI_syncWithCloud_def split: sum.splits)
  qed
qed

lemma saveRecipe_cases:
  "(\<exists>e. fst (RecipeStore_saveRecipe toISOString io recipe w) = Inl e \<and>
        idb (snd (snd (RecipeStore_saveRecipe toISOString io recipe w))) = idb w) \<or>
   (\<exists>kr. recipe ''barcode'' = Some kr \<and>
        fst (RecipeStore_saveRecipe toISOString io recipe w) = Inr () \<and>
        idb (snd (snd (RecipeStore_saveRecipe toISOString io recipe w))) =
          (idb w)(kr \<mapsto> recipe(''date'' \<mapsto> JStr (toISOString (clock w + lag io)))))"
  by (simp add: RecipeStore_saveRecipe_def Let_def split: option.splits)

lemma loop_written:
  "idb (snd (syncWithCloud_loop toISOString ios i rs w)) k = idb w k \<or>
   (\<exists>r \<in> set rs. \<exists>t. r ''barcode'' = Some k \<and> clock w \<le> t \<and>
       t \<le> clock (snd (syncWithCloud_loop toISOString ios i rs w)) \<and>
       idb (snd (syncWithCloud_loop toISOString ios i rs w)) k =
         Some (r(''date'' \<mapsto> JStr (toISOString t))))"
proof (induction rs arbitrary: i w)
  case Nil
  show ?case by simp
next
  case (Cons r rs)
  obtain res r' w1 where s: "RecipeStore_saveRecipe toISOString (ios i) r w = (res, r', w1)"
    by (cases "RecipeStore_saveRecipe toISOString (ios i) r w") auto
  have c1: "clock w1 = clock w + lag (ios i)"
    using saveRecipe_clock [of toISOString "ios i" r w] s by simp
  show ?case
  proof (cases res)
    case (Inl e)
    then have "idb w1 = idb w"
      using saveRecipe_cases [of toISOString "ios i" r w] s by auto
    with s Inl show ?thesis by simp
  next
    case (Inr u)
    then obtain kr where kr: "r ''barcode'' = Some kr"
        "idb w1 = (idb w)(kr \<mapsto> r(''date'' \<mapsto> JStr (toISOString (clock w1))))"
      using saveRecipe_cases [of toISOString "ios i" r w] s c1 by auto
    let ?w' = "snd (syncWithCloud_loop toISOString ios (Suc i) rs w1)"
    have step: "syncWithCloud_loop toISOString ios i (r # rs) w =
                  syncWithCloud_loop toISOString ios (Suc i) rs w1"
      using s Inr by simp
    have mono: "clock w1 \<le> clock ?w'" by (rule loop_clock_mono)
    from Cons.IH [of "Suc i" w1]
    consider (same) "idb ?w' k = idb w1 k"
      | (later) "\<exists>r0 \<in> set rs. \<exists>t. r0 ''barcode'' = Some k \<and> clock w1 \<le> t \<and>
           t \<le> clock ?w' \<and> idb ?w' k = Some (r0(''date'' \<mapsto> JStr (toISOString t)))"
      by blast
    then show ?thesis
    proof cases
      case same
      show ?thesis
      proof (cases "kr = k")
        case True
        have "r ''barcode'' = Some k \<and> clock w \<le> clock w1 \<and> clock w1 \<le> clock ?w' \<and>
              idb ?w' k = Some (r(''date'' \<mapsto> JStr (toISOString (clock w1))))"
          using same True kr c1 mono by simp
        then have "\<exists>r0 \<in> set (r # rs). \<exists>t. r0 ''barcode'' = Some k \<and> clock w \<le> t \<and>
            t \<le> clock ?w' \<and> idb ?w' k = Some (r0(''date'' \<mapsto> JStr (toISOString t)))"
          by (intro bexI [of _ r] exI [of _ "clock w1"]) simp_all
        then show ?thesis unfolding step by (rule disjI2)
      next
        case False
        with same kr have "idb ?w' k = idb w k" by simp
        then show ?thesis unfolding step by simp
      qed
    next
      case later
      then obtain r0 t where "r0 \<in> set rs" "r0 ''barcode'' = Some k" "clock w1 \<le> t"
        "t \<le> clock ?w'" "idb ?w' k = Some (r0(''date'' \<mapsto> JStr (toISOString t)))"
        by blast
      moreover have "clock w \<le> clock w1" using c1 by simp
      ultimately have "r0 \<in> set (r # rs) \<and> r0 ''barcode'' = Some k \<and> clock w \<le> t \<and>
        t \<le> clock ?w' \<and> idb ?w' k = Some (r0(''date'' \<mapsto> JStr (toISOString t)))"
        by simp
      then have "\<exists>r0 \<in> set (r # rs). \<exists>t. r0 ''barcode'' = Some k \<and> clock w \<le> t \<and>
          t \<le> clock ?w' \<and> idb ?w' k = Some (r0(''date'' \<mapsto> JStr (toISOString t)))"
        by (intro bexI [of _ r0] exI [of _ t]) simp_all
      then show ?thesis unfolding step by (rule disjI2)
    qed
  qed
qed

lemma syncWithCloud_written:
  "idb (UI_syncWithCloud toISOString net ios w) k = idb w k \<or>
   (\<exists>r \<in> set (map snd (fs_recipes w)). \<exists>t. r ''barcode'' = Some k \<and> clock w \<le> t \<and>
       t \<le> clock (UI_syncWithCloud toISOString net ios w) \<and>
       idb (UI_syncWithCloud toISOString net ios w) k =
         Some (r(''date'' \<mapsto> JStr (toISOString t))))"
proof (cases "cloud w")
  case None
  then show ?thesis by (simp add: UI_syncWithCloud_def)
next
  case (Some c)
  show ?thesis
  proof (cases "CloudStore_getAllRecipes net c w")
    case (Inl e)
    with Some show ?thesis by (simp add: UI_syncWithCloud_def)
  next
    case (Inr rs)
    then have sub: "set rs \<subseteq> set (map snd (fs_recipes w))"
      by (auto simp: CloudStore_getAllRecipes_def split: if_splits)
    obtain res w' where l: "syncWithCloud_loop toISOString ios 0 rs w = (res, w')"
      by (cases "syncWithCloud_loop toISOString ios 0 rs w") auto
    have run: "idb (UI_syncWithCloud toISOString net ios w) = idb w'"
      "clock (UI_syncWithCloud toISOString net ios w) = clock w'"
      using Some Inr l by (cases res; simp add: UI_syncWithCloud_def)+
    from loop_written [of toISOString ios 0 rs w k] l
    have "idb w' k = idb w k \<or>
       (\<exists>r \<in> set rs. \<exists>t. r ''barcode'' = Some k \<and> clock w \<le> t \<and> t \<le> clock w' \<and>
           idb w' k = Some (r(''date'' \<mapsto> JStr (toISOString t))))"
      by simp
    with sub show ?thesis unfolding run by blast
  qed
qed

lemma ex_sync_run:
  "UI_syncWithCloud ex_toISOString True (\<lambda>i. ex_io) ex_sync =
     ex_sync\<lparr>clock := 1002,
       idb := Map.empty(JStr ''333'' \<mapsto> ex_C,
                        JStr ''111'' \<mapsto> ex_A(''date'' \<mapsto> JStr ''1970-01-01T00:00:01.001Z''),
                        JStr ''222'' \<mapsto> ex_B(''date'' \<mapsto> JStr ''1970-01-01T00:00:01.002Z''))\<rparr>"
  by (simp add: UI_syncWithCloud_def CloudStore_getAllRecipes_def RecipeStore_saveRecipe_def
      Let_def ex_barcodes ex_sync_def ex_defs)

section \<open>Saving and deleting from the controller\<close>

lemma image_frame:
  "idb (snd (UI_saveRecipe_image upload w)) = idb w \<and>
   cloud (snd (UI_saveRecipe_image upload w)) = cloud w \<and>
   fs_recipes (snd (UI_saveRecipe_image upload w)) = fs_recipes w \<and>
   clock (snd (UI_saveRecipe_image upload w)) = clock w \<and>
   view (snd (UI_saveRecipe_image upload w)) = view w"
  by (simp add: UI_saveRecipe_image_def Let_def split: sum.splits)

lemma saveRecipe_run:
  assumes "name \<noteq> []" and "accepted io"
    and "UI_saveRecipe_image upload w = (imageUrl, w1)"
    and "cloud w = Some c" and "db c" and "truthy (userId c)"
    and "stored = Map.empty(''barcode'' \<mapsto> JStr barcode, ''name'' \<mapsto> JStr name,
                  ''instructions'' \<mapsto> JStr instructions, ''image'' \<mapsto> imageUrl,
                  ''date'' \<mapsto> JStr (toISOString (clock w + lag io)))"
  shows "UI_saveRecipe toISOString upload io net barcode name instructions w =
           (if net
            then w1\<lparr>clock := clock w + lag io, idb := (idb w)(JStr barcode \<mapsto> stored),
                    fs_recipes := AList.update barcode stored (fs_recipes w),
                    alerts := alerts w1 @ [''Recipe saved!''], view := ''view-home''\<rparr>
            else w1\<lparr>clock := clock w + lag io, idb := (idb w)(JStr barcode \<mapsto> stored),
                    errlog := errlog w1 @ [(''Cloud save failed:'', RemoteFailed)],
                    alerts := alerts w1 @ [''Recipe saved!''], view := ''view-home''\<rparr>)"
proof -
  have f: "idb w1 = idb w" "cloud w1 = cloud w" "fs_recipes w1 = fs_recipes w" "clock w1 = clock w"
    using image_frame [of upload w] assms(3) by simp_all
  show ?thesis
    using assms f
    by (simp add: UI_saveRecipe_def saveRecipe_accepted CloudStore_saveRecipe_def
        UI_switchView_def)
qed

lemma UI_saveRecipe_no_cloud:
  assumes "cloud w = None"
  shows "UI_saveRecipe toISOString upload io net barcode name instructions w =
           UI_saveRecipe toISOString upload io net' barcode name instructions w \<and>
         fs_recipes (UI_saveRecipe toISOString upload io net barcode name instructions w) = fs_recipes w"
proof (cases "UI_saveRecipe_image upload w")
  case (Pair imageUrl w1)
  have f: "cloud w1 = None" "fs_recipes w1 = fs_recipes w"
    using image_frame [of upload w] Pair assms by simp_all
  let ?r = "Map.empty(''barcode'' \<mapsto> JStr barcode, ''name'' \<mapsto> JStr name,
                      ''instructions'' \<mapsto> JStr instructions, ''image'' \<mapsto> imageUrl)"
  obtain res r' w2 where s: "RecipeStore_saveRecipe toISOString io ?r w1 = (res, r', w2)"
    by (cases "RecipeStore_saveRecipe toISOString io ?r w1") auto
  have g: "cloud w2 = None" "fs_recipes w2 = fs_recipes w"
    using saveRecipe_cloud [of toISOString io ?r w1] s f by simp_all
  show ?thesis
    using Pair s g by (cases res) (simp_all add: UI_saveRecipe_def UI_switchView_def)
qed

lemma UI_confirmDelete_no_cloud:
  assumes "cloud w = None"
  shows "UI_confirmDelete confirmed ok net recipe w = UI_confirmDelete confirmed ok net' recipe w \<and>
         fs_recipes (UI_confirmDelete confirmed ok net recipe w) = fs_recipes w"
  using assms
  by (simp add: UI_confirmDelete_def RecipeStore_deleteRecipe_def UI_switchView_def Let_def
      split: option.splits)

section \<open>The local store: put, get, delete\<close>

text \<open>
  \<^bold>\<open>C3\<close>. Let \<open>R\<close> be a record whose \<^verbatim>\<open>barcode\<close> is a key, and let the storage
  accept the write. Then \<^verbatim>\<open>saveRecipe(R)\<close> succeeds, and \<^verbatim>\<open>getRecipe\<close> of the
  barcode of \<open>R\<close>, on a storage that answers the read, returns a record that has the
  value of \<open>R\<close> in every field but \<^verbatim>\<open>date\<close>. Its \<^verbatim>\<open>date\<close> is the formatted
  reading of the clock that the write made, whatever \<open>R\<close> held there, and that
  reading is not before the time of the call.
\<close>

theorem put_then_get:
  assumes "R ''barcode'' = Some k" and "valid_key k" and "accepted io"
  shows "case RecipeStore_saveRecipe toISOString io R w of
           (res, R', w') \<Rightarrow>
             res = Inr () \<and> clock w \<le> clock w' \<and>
             (case RecipeStore_getRecipe True (R ''barcode'') w' of
                Inr (Some stored) \<Rightarrow>
                  stored ''date'' = Some (JStr (toISOString (clock w'))) \<and>
                  (\<forall>f. f \<noteq> ''date'' \<longrightarrow> stored f = R f)
              | _ \<Rightarrow> False)"
  using assms by (simp add: saveRecipe_accepted RecipeStore_getRecipe_def)

theorem put_then_get_witness:
  "fst (RecipeStore_saveRecipe ex_toISOString ex_io ex_A ex_world) = Inr () \<and>
   RecipeStore_getRecipe True (Some (JStr ''111''))
     (snd (snd (RecipeStore_saveRecipe ex_toISOString ex_io ex_A ex_world))) =
     Inr (Some (ex_A(''date'' \<mapsto> JStr ''1970-01-01T00:00:01.001Z'')))"
proof -
  have h: "ex_A ''barcode'' = Some (JStr ''111'')" "valid_key (JStr ''111'')" "accepted ex_io"
    by (simp_all add: ex_barcodes ex_defs)
  show ?thesis
    using put_then_get [where R = ex_A and k = "JStr ''111''" and io = ex_io
        and toISOString = ex_toISOString and w = ex_world, OF h]
    by (simp add: RecipeStore_saveRecipe_def RecipeStore_getRecipe_def Let_def ex_barcodes ex_defs)
qed

text \<open>
  \<^bold>\<open>C4\<close>. Let \<open>R1\<close> and \<open>R2\<close> have the same key \<open>k\<close>, and let the storage accept
  both writes. After \<^verbatim>\<open>saveRecipe(R1)\<close> and then \<^verbatim>\<open>saveRecipe(R2)\<close> the store
  holds under \<open>k\<close> the record \<open>R2\<close> with its date set by the second write: every
  field but \<^verbatim>\<open>date\<close> reads as in \<open>R2\<close>, so a field that only \<open>R1\<close> had is
  gone. The record under \<open>k\<close> has the barcode \<open>k\<close> after the first write and after
  the second, and the second write adds no key to the store.
\<close>

theorem resave_replaces:
  assumes "R1 ''barcode'' = Some k" and "R2 ''barcode'' = Some k" and "valid_key k"
    and "accepted io1" and "accepted io2"
  shows "case RecipeStore_saveRecipe toISOString io1 R1 w of
           (res1, R1', w1) \<Rightarrow>
             (case RecipeStore_saveRecipe toISOString io2 R2 w1 of
                (res2, R2', w2) \<Rightarrow>
                  res1 = Inr () \<and> res2 = Inr () \<and>
                  idb w2 k = Some (R2(''date'' \<mapsto> JStr (toISOString (clock w2)))) \<and>
                  (case idb w2 k of
                     None \<Rightarrow> False
                   | Some s2 \<Rightarrow>
                       (\<forall>f. f \<noteq> ''date'' \<longrightarrow> s2 f = R2 f) \<and> s2 ''barcode'' = Some k) \<and>
                  (case idb w1 k of
                     None \<Rightarrow> False
                   | Some s1 \<Rightarrow> s1 ''barcode'' = Some k) \<and>
                  dom (idb w2) = dom (idb w1))"
  using assms by (auto simp add: saveRecipe_accepted)

theorem resave_replaces_witness:
  "idb (snd (snd (RecipeStore_saveRecipe ex_toISOString ex_io ex_A
          (snd (snd (RecipeStore_saveRecipe ex_toISOString ex_io ex_A' ex_world))))))
     (JStr ''111'') = Some (ex_A(''date'' \<mapsto> JStr ''1970-01-01T00:00:01.002Z'')) \<and>
   (ex_A(''date'' \<mapsto> JStr ''1970-01-01T00:00:01.002Z'')) ''instructions'' = None \<and>
   ex_A' ''instructions'' = Some (JStr ''Stir.'')"
proof -
  have h: "ex_A' ''barcode'' = Some (JStr ''111'')" "ex_A ''barcode'' = Some (JStr ''111'')"
    "valid_key (JStr ''111'')" "accepted ex_io" "accepted ex_io"
    by (simp_all add: ex_barcodes ex_defs)
  show ?thesis
    using resave_replaces [where ?R1.0 = ex_A' and ?R2.0 = ex_A and k = "JStr ''111''"
        and ?io1.0 = ex_io and ?io2.0 = ex_io and toISOString = ex_toISOString and w = ex_world, OF h]
    by (simp add: RecipeStore_saveRecipe_def Let_def ex_barcodes ex_defs)
       (simp add: ex_A_def ex_A'_def)
qed

text \<open>
  \<^bold>\<open>C6\<close>. For every key \<open>k\<close>, on a storage that carries the requests out,
  \<^verbatim>\<open>deleteRecipe(k)\<close> succeeds and \<^verbatim>\<open>getRecipe(k)\<close> then succeeds with
  \<^verbatim>\<open>undefined\<close>, the answer for a record that is not there. When no record has the
  key, \<^verbatim>\<open>deleteRecipe(k)\<close> succeeds all the same and leaves the state as it was.
\<close>

theorem delete_then_get:
  assumes "valid_key k"
  shows "fst (RecipeStore_deleteRecipe True (Some k) w) = Inr () \<and>
         RecipeStore_getRecipe True (Some k)
           (snd (RecipeStore_deleteRecipe True (Some k) w)) = Inr None \<and>
         (idb w k = None \<longrightarrow> RecipeStore_deleteRecipe True (Some k) w = (Inr (), w))"
  using assms
  by (simp add: RecipeStore_deleteRecipe_def RecipeStore_getRecipe_def fun_upd_idem)

theorem delete_then_get_witness:
  "RecipeStore_deleteRecipe True (Some (JStr ''333'')) ex_sync =
     (Inr (), ex_sync\<lparr>idb := Map.empty(JStr ''111'' \<mapsto> ex_A')\<rparr>) \<and>
   RecipeStore_getRecipe True (Some (JStr ''333''))
     (snd (RecipeStore_deleteRecipe True (Some (JStr ''333'')) ex_sync)) = Inr None \<and>
   idb ex_world (JStr ''333'') = None \<and>
   RecipeStore_deleteRecipe True (Some (JStr ''333'')) ex_world = (Inr (), ex_world)"
proof -
  have h: "valid_key (JStr ''333'')" by simp
  have e: "(Map.empty(JStr ''111'' \<mapsto> ex_A', JStr ''333'' \<mapsto> ex_C))(JStr ''333'' := None)
             = Map.empty(JStr ''111'' \<mapsto> ex_A')"
    by (rule ext) simp
  show ?thesis
    using delete_then_get [OF h, of ex_sync] delete_then_get [OF h, of ex_world]
    by (simp add: RecipeStore_deleteRecipe_def RecipeStore_getRecipe_def ex_sync_def ex_defs e)
qed

section \<open>The startup sync\<close>

text \<open>
  \<^bold>\<open>C1\<close>. In every run of \<^verbatim>\<open>syncWithCloud\<close>, whatever the network and the
  storage answer, a key that no remote record has keeps in the local store what it
  held before. Let moreover the cloud handle be set and connected, let the fetch of
  the remote records succeed, let every remote record have a key and let the storage
  accept every write. Then \<^verbatim>\<open>syncWithCloud\<close> logs no error and, for every key that
  a remote record has, the local store holds under the key a record that has the
  value of the remote version in every field but \<^verbatim>\<open>date\<close>, whatever the local
  store held under the key before and whatever the two dates were: no date is
  compared.
\<close>

theorem startup_pull_remote_wins:
  "(\<forall>k. remote_version (map snd (fs_recipes w)) k = None \<longrightarrow>
        idb (UI_syncWithCloud toISOString net ios w) k = idb w k) \<and>
   (cloud w = Some c \<and> db c \<and> truthy (userId c) \<and>
    (\<forall>r \<in> set (map snd (fs_recipes w)). has_key r) \<and>
    (\<forall>i < length (fs_recipes w). accepted (ios i)) \<longrightarrow>
      errlog (UI_syncWithCloud toISOString True ios w) = errlog w \<and>
      (\<forall>k. case remote_version (map snd (fs_recipes w)) k of
              None \<Rightarrow> True
            | Some r \<Rightarrow>
                (case idb (UI_syncWithCloud toISOString True ios w) k of
                   None \<Rightarrow> False
                 | Some s \<Rightarrow> \<forall>f. f \<noteq> ''date'' \<longrightarrow> s f = r f)))"
proof (intro conjI allI impI)
  fix k
  assume "remote_version (map snd (fs_recipes w)) k = None"
  then have "\<forall>r \<in> set (map snd (fs_recipes w)). r ''barcode'' \<noteq> Some k"
    by (simp only: remote_version_None)
  then show "idb (UI_syncWithCloud toISOString net ios w) k = idb w k"
    by (rule syncWithCloud_other_key)
next
  assume a: "cloud w = Some c \<and> db c \<and> truthy (userId c) \<and>
    (\<forall>r \<in> set (map snd (fs_recipes w)). has_key r) \<and>
    (\<forall>i < length (fs_recipes w). accepted (ios i))"
  let ?rs = "map snd (fs_recipes w)"
  let ?w' = "snd (syncWithCloud_loop toISOString ios 0 ?rs w)"
  have run: "UI_syncWithCloud toISOString True ios w = ?w'"
    using a by (intro syncWithCloud_ok) auto
  show "errlog (UI_syncWithCloud toISOString True ios w) = errlog w"
    unfolding run by (rule loop_errlog)
  fix k
  have res: "case remote_version ?rs k of
                 None \<Rightarrow> idb ?w' k = idb w k
               | Some r \<Rightarrow> \<exists>t. clock w \<le> t \<and> t \<le> clock ?w' \<and>
                       idb ?w' k = Some (r(''date'' \<mapsto> JStr (toISOString t)))"
    using loop_result [of ?rs ios 0 toISOString w] a by simp
  then show "case remote_version ?rs k of
              None \<Rightarrow> True
            | Some r \<Rightarrow>
                (case idb (UI_syncWithCloud toISOString True ios w) k of
                   None \<Rightarrow> False
                 | Some s \<Rightarrow> \<forall>f. f \<noteq> ''date'' \<longrightarrow> s f = r f)"
    unfolding run by (cases "remote_version ?rs k") auto
qed

theorem startup_pull_remote_wins_witness:
  "idb ex_sync (JStr ''111'') = Some ex_A' \<and>
   idb (UI_syncWithCloud ex_toISOString True (\<lambda>i. ex_io) ex_sync) (JStr ''111'') =
     Some (ex_A(''date'' \<mapsto> JStr ''1970-01-01T00:00:01.001Z'')) \<and>
   idb (UI_syncWithCloud ex_toISOString True (\<lambda>i. ex_io) ex_sync) (JStr ''222'') =
     Some (ex_B(''date'' \<mapsto> JStr ''1970-01-01T00:00:01.002Z'')) \<and>
   remote_version (map snd (fs_recipes ex_sync)) (JStr ''333'') = None \<and>
   idb (UI_syncWithCloud ex_toISOString True (\<lambda>i. ex_io) ex_sync) (JStr ''333'') = Some ex_C \<and>
   errlog (UI_syncWithCloud ex_toISOString True (\<lambda>i. ex_io) ex_sync) = errlog ex_sync"
proof -
  have h: "cloud ex_sync = Some ex_cloud \<and> db ex_cloud \<and> truthy (userId ex_cloud) \<and>
    (\<forall>r \<in> set (map snd (fs_recipes ex_sync)). has_key r) \<and>
    (\<forall>i < length (fs_recipes ex_sync). accepted ((\<lambda>i. ex_io) i))"
    by (simp add: ex_sync_def ex_defs has_key_def ex_barcodes)
  have n: "remote_version (map snd (fs_recipes ex_sync)) (JStr ''333'') = None"
    by (simp add: remote_version_def ex_sync_def ex_defs ex_barcodes)
  note t = startup_pull_remote_wins [where w = ex_sync and c = ex_cloud and ios = "\<lambda>i. ex_io"
      and toISOString = ex_toISOString and net = True]
  have f: "idb (UI_syncWithCloud ex_toISOString True (\<lambda>i. ex_io) ex_sync) (JStr ''333'') =
             idb ex_sync (JStr ''333'')"
    using t n by blast
  have e: "errlog (UI_syncWithCloud ex_toISOString True (\<lambda>i. ex_io) ex_sync) = errlog ex_sync"
    using t h by blast
  show ?thesis
    using f e n by (simp add: ex_sync_run) (simp add: ex_sync_def ex_defs)
qed

text \<open>
  \<^bold>\<open>C10\<close>. In every run of \<^verbatim>\<open>syncWithCloud\<close>, whatever the network and the
  storage answer, what the local store holds under a key afterwards is either what
  it held before or a copy of a remote record with that barcode, in which the
  \<^verbatim>\<open>date\<close> is the formatted reading of the local clock at an instant between
  the start and the end of the pull, whatever date the remote record carried, and
  every other field is as in the remote record. Under the conditions of C1 for a
  pull that completes, this copy is there for every key that a remote record has.
\<close>

theorem startup_pull_refreshes_date:
  "(\<forall>k. idb (UI_syncWithCloud toISOString net ios w) k = idb w k \<or>
        (\<exists>r \<in> set (map snd (fs_recipes w)). \<exists>t.
            r ''barcode'' = Some k \<and> clock w \<le> t \<and>
            t \<le> clock (UI_syncWithCloud toISOString net ios w) \<and>
            (case idb (UI_syncWithCloud toISOString net ios w) k of
               None \<Rightarrow> False
             | Some s \<Rightarrow> s ''date'' = Some (JStr (toISOString t)) \<and>
                         (\<forall>f. f \<noteq> ''date'' \<longrightarrow> s f = r f)))) \<and>
   (cloud w = Some c \<and> db c \<and> truthy (userId c) \<and>
    (\<forall>r \<in> set (map snd (fs_recipes w)). has_key r) \<and>
    (\<forall>i < length (fs_recipes w). accepted (ios i)) \<longrightarrow>
      (\<forall>k. case remote_version (map snd (fs_recipes w)) k of
              None \<Rightarrow> True
            | Some r \<Rightarrow>
                (case idb (UI_syncWithCloud toISOString True ios w) k of
                   None \<Rightarrow> False
                 | Some s \<Rightarrow>
                     (\<exists>t. clock w \<le> t \<and> t \<le> clock (UI_syncWithCloud toISOString True ios w) \<and>
                          s ''date'' = Some (JStr (toISOString t))) \<and>
                     (\<forall>f. f \<noteq> ''date'' \<longrightarrow> s f = r f))))"
proof (intro conjI allI impI)
  fix k
  let ?w' = "UI_syncWithCloud toISOString net ios w"
  from syncWithCloud_written [of toISOString net ios w k]
  consider "idb ?w' k = idb w k"
    | r t where "r \<in> set (map snd (fs_recipes w))" "r ''barcode'' = Some k" "clock w \<le> t"
        "t \<le> clock ?w'" "idb ?w' k = Some (r(''date'' \<mapsto> JStr (toISOString t)))"
    by blast
  then show "idb ?w' k = idb w k \<or>
        (\<exists>r \<in> set (map snd (fs_recipes w)). \<exists>t.
            r ''barcode'' = Some k \<and> clock w \<le> t \<and> t \<le> clock ?w' \<and>
            (case idb ?w' k of
               None \<Rightarrow> False
             | Some s \<Rightarrow> s ''date'' = Some (JStr (toISOString t)) \<and>
                         (\<forall>f. f \<noteq> ''date'' \<longrightarrow> s f = r f)))"
  proof cases
    case 1
    then show ?thesis by (rule disjI1)
  next
    case (2 r t)
    then have "\<exists>r \<in> set (map snd (fs_recipes w)). \<exists>t.
            r ''barcode'' = Some k \<and> clock w \<le> t \<and> t \<le> clock ?w' \<and>
            (case idb ?w' k of
               None \<Rightarrow> False
             | Some s \<Rightarrow> s ''date'' = Some (JStr (toISOString t)) \<and>
                         (\<forall>f. f \<noteq> ''date'' \<longrightarrow> s f = r f))"
      by (intro bexI [of _ r] exI [of _ t]) simp_all
    then show ?thesis by (rule disjI2)
  qed
next
  fix k
  assume a: "cloud w = Some c \<and> db c \<and> truthy (userId c) \<and>
    (\<forall>r \<in> set (map snd (fs_recipes w)). has_key r) \<and>
    (\<forall>i < length (fs_recipes w). accepted (ios i))"
  let ?rs = "map snd (fs_recipes w)"
  let ?w' = "snd (syncWithCloud_loop toISOString ios 0 ?rs w)"
  have run: "UI_syncWithCloud toISOString True ios w = ?w'"
    using a by (intro syncWithCloud_ok) auto
  have res: "case remote_version ?rs k of
                 None \<Rightarrow> idb ?w' k = idb w k
               | Some r \<Rightarrow> \<exists>t. clock w \<le> t \<and> t \<le> clock ?w' \<and>
                       idb ?w' k = Some (r(''date'' \<mapsto> JStr (toISOString t)))"
    using loop_result [of ?rs ios 0 toISOString w] a by simp
  then show "case remote_version ?rs k of
              None \<Rightarrow> True
            | Some r \<Rightarrow>
                (case idb (UI_syncWithCloud toISOString True ios w) k of
                   None \<Rightarrow> False
                 | Some s \<Rightarrow>
                     (\<exists>t. clock w \<le> t \<and> t \<le> clock (UI_syncWithCloud toISOString True ios w) \<and>
                          s ''date'' = Some (JStr (toISOString t))) \<and>
                     (\<forall>f. f \<noteq> ''date'' \<longrightarrow> s f = r f))"
    unfolding run by (cases "remote_version ?rs k") auto
qed

theorem startup_pull_refreshes_date_witness:
  "ex_A ''date'' = Some (JStr ''1969-07-20T20:17:40.000Z'') \<and>
   remote_version (map snd (fs_recipes ex_sync)) (JStr ''111'') = Some ex_A \<and>
   clock ex_sync = 1000 \<and>
   clock (UI_syncWithCloud ex_toISOString True (\<lambda>i. ex_io) ex_sync) = 1002 \<and>
   (case idb (UI_syncWithCloud ex_toISOString True (\<lambda>i. ex_io) ex_sync) (JStr ''111'') of
      None \<Rightarrow> False
    | Some s \<Rightarrow> s ''date'' = Some (JStr (ex_toISOString 1001)) \<and>
                s ''name'' = ex_A ''name'' \<and> s ''barcode'' = ex_A ''barcode'')"
proof -
  have h: "cloud ex_sync = Some ex_cloud \<and> db ex_cloud \<and> truthy (userId ex_cloud) \<and>
    (\<forall>r \<in> set (map snd (fs_recipes ex_sync)). has_key r) \<and>
    (\<forall>i < length (fs_recipes ex_sync). accepted ((\<lambda>i. ex_io) i))"
    by (simp add: ex_sync_def ex_defs has_key_def ex_barcodes)
  have r: "remote_version (map snd (fs_recipes ex_sync)) (JStr ''111'') = Some ex_A"
    by (simp add: remote_version_def ex_sync_def ex_defs ex_barcodes)
  have "case remote_version (map snd (fs_recipes ex_sync)) (JStr ''111'') of
          None \<Rightarrow> True
        | Some r \<Rightarrow>
            (case idb (UI_syncWithCloud ex_toISOString True (\<lambda>i. ex_io) ex_sync) (JStr ''111'') of
               None \<Rightarrow> False
             | Some s \<Rightarrow>
                 (\<exists>t. clock ex_sync \<le> t \<and>
                      t \<le> clock (UI_syncWithCloud ex_toISOString True (\<lambda>i. ex_io) ex_sync) \<and>
                      s ''date'' = Some (JStr (ex_toISOString t))) \<and>
                 (\<forall>f. f \<noteq> ''date'' \<longrightarrow> s f = r f))"
    using startup_pull_refreshes_date [where w = ex_sync and c = ex_cloud
        and ios = "\<lambda>i. ex_io" and toISOString = ex_toISOString and net = True,
        THEN conjunct2, THEN mp, OF h]
    by (rule spec)
  then show ?thesis
    by (simp add: r ex_sync_run) (simp add: ex_A_def ex_sync_def ex_defs)
qed

text \<open>
  \<^bold>\<open>C2\<close>. Let the cloud handle be set and connected, let the fetch succeed and let
  the remote settings document exist, with the fields \<open>R\<close>. Then
  \<^verbatim>\<open>syncSettingsWithCloud\<close> saves locally the merge of the local settings and \<open>R\<close>:
  a field of \<open>R\<close> has the value \<open>R\<close> gives it, a field that only the local settings
  have keeps its value, and no other field appears. In particular, merging the local
  \<^verbatim>\<open>{cloudName: "x", fbUserId: "u1"}\<close> with the remote \<^verbatim>\<open>{cloudName: "y"}\<close>
  gives \<^verbatim>\<open>{cloudName: "y", fbUserId: "u1"}\<close>.
\<close>

theorem settings_merge_remote_precedence:
  assumes "cloud w = Some c" and "db c" and "truthy (userId c)" and "fs_settings w = Some R"
  shows "settings_item (UI_syncSettingsWithCloud True w) = Some (mergedSettings (Settings_get w) R) \<and>
         (\<forall>f. Settings_get (UI_syncSettingsWithCloud True w) f =
                (case R f of Some v \<Rightarrow> Some v | None \<Rightarrow> Settings_get w f)) \<and>
         dom (Settings_get (UI_syncSettingsWithCloud True w)) = dom (Settings_get w) \<union> dom R \<and>
         mergedSettings (Map.empty(''cloudName'' \<mapsto> JStr ''x'', ''fbUserId'' \<mapsto> JStr ''u1''))
                        (Map.empty(''cloudName'' \<mapsto> JStr ''y''))
           = Map.empty(''cloudName'' \<mapsto> JStr ''y'', ''fbUserId'' \<mapsto> JStr ''u1'')"
proof -
  have run: "UI_syncSettingsWithCloud True w = Settings_save (mergedSettings (Settings_get w) R) w"
    using assms by (simp add: UI_syncSettingsWithCloud_def CloudStore_getSettings_def)
  have a: "settings_item (UI_syncSettingsWithCloud True w) = Some (mergedSettings (Settings_get w) R)"
    by (simp add: run Settings_save_def)
  have g: "Settings_get (UI_syncSettingsWithCloud True w) = Settings_get w ++ R"
    by (simp add: run Settings_save_def Settings_get_def mergedSettings_def)
  have b: "\<forall>f. Settings_get (UI_syncSettingsWithCloud True w) f =
                (case R f of Some v \<Rightarrow> Some v | None \<Rightarrow> Settings_get w f)"
    by (simp add: g map_add_def split: option.splits)
  have d: "dom (Settings_get (UI_syncSettingsWithCloud True w)) = dom (Settings_get w) \<union> dom R"
    by (simp add: g Un_commute)
  have e: "mergedSettings (Map.empty(''cloudName'' \<mapsto> JStr ''x'', ''fbUserId'' \<mapsto> JStr ''u1''))
                        (Map.empty(''cloudName'' \<mapsto> JStr ''y''))
           = Map.empty(''cloudName'' \<mapsto> JStr ''y'', ''fbUserId'' \<mapsto> JStr ''u1'')"
    by (rule ext) (simp add: mergedSettings_def map_add_def)
  from a b d e show ?thesis by simp
qed

theorem settings_merge_remote_precedence_witness:
  "Settings_get ex_settings = Map.empty(''cloudName'' \<mapsto> JStr ''x'', ''fbUserId'' \<mapsto> JStr ''u1'') \<and>
   fs_settings ex_settings = Some (Map.empty(''cloudName'' \<mapsto> JStr ''y'')) \<and>
   Settings_get (UI_syncSettingsWithCloud True ex_settings) ''cloudName'' = Some (JStr ''y'') \<and>
   Settings_get (UI_syncSettingsWithCloud True ex_settings) ''fbUserId'' = Some (JStr ''u1'') \<and>
   dom (Settings_get (UI_syncSettingsWithCloud True ex_settings)) = {''cloudName'', ''fbUserId''}"
proof -
  have h: "cloud ex_settings = Some ex_cloud" "db ex_cloud" "truthy (userId ex_cloud)"
    "fs_settings ex_settings = Some (Map.empty(''cloudName'' \<mapsto> JStr ''y''))"
    by (simp_all add: ex_settings_def ex_defs)
  have g: "Settings_get ex_settings =
             Map.empty(''cloudName'' \<mapsto> JStr ''x'', ''fbUserId'' \<mapsto> JStr ''u1'')"
    by (simp add: Settings_get_def ex_settings_def ex_defs)
  show ?thesis
    using settings_merge_remote_precedence [OF h] h(4)
    by (simp add: g) auto
qed

section \<open>Saving and deleting a recipe\<close>

text \<open>
  \<^bold>\<open>C5\<close>. Let the name be given, let the storage accept the local write and let the
  cloud handle be set and connected. When the mirror call is rejected, the local
  store is what it is when the mirror call succeeds, and it holds the saved record;
  the alerts are those raised before the local write followed by
  \<^verbatim>\<open>Recipe saved!\<close>, the same as when the mirror call succeeds; the home view
  becomes active; the rejection is logged by \<^verbatim>\<open>console.error\<close> and the remote
  records are unchanged.
\<close>

theorem mirror_failure_is_silent:
  assumes "name \<noteq> []" and "accepted io"
    and "cloud w = Some c" and "db c" and "truthy (userId c)"
  shows "case UI_saveRecipe_image upload w of
           (imageUrl, w1) \<Rightarrow>
             idb (UI_saveRecipe toISOString upload io False barcode name instructions w) =
               idb (UI_saveRecipe toISOString upload io True barcode name instructions w) \<and>
             idb (UI_saveRecipe toISOString upload io False barcode name instructions w) (JStr barcode) =
               Some (Map.empty(''barcode'' \<mapsto> JStr barcode, ''name'' \<mapsto> JStr name,
                  ''instructions'' \<mapsto> JStr instructions, ''image'' \<mapsto> imageUrl,
                  ''date'' \<mapsto> JStr (toISOString (clock w + lag io)))) \<and>
             alerts (UI_saveRecipe toISOString upload io False barcode name instructions w) =
               alerts w1 @ [''Recipe saved!''] \<and>
             alerts (UI_saveRecipe toISOString upload io False barcode name instructions w) =
               alerts (UI_saveRecipe toISOString upload io True barcode name instructions w) \<and>
             view (UI_saveRecipe toISOString upload io False barcode name instructions w) = ''view-home'' \<and>
             errlog (UI_saveRecipe toISOString upload io False barcode name instructions w) =
               errlog w1 @ [(''Cloud save failed:'', RemoteFailed)] \<and>
             fs_recipes (UI_saveRecipe toISOString upload io False barcode name instructions w) =
               fs_recipes w"
proof (cases "UI_saveRecipe_image upload w")
  case (Pair imageUrl w1)
  have f: "fs_recipes w1 = fs_recipes w"
    using image_frame [of upload w] Pair by simp
  show ?thesis
    using Pair f
    by (simp add: saveRecipe_run [OF assms(1,2) Pair assms(3,4,5) refl])
qed

theorem mirror_failure_is_silent_witness:
  "idb (UI_saveRecipe ex_toISOString (Inl UploadFailed) ex_io False ''444'' ''Daiquiri'' ''Shake.''
          (ex_world\<lparr>cloud := Some ex_cloud\<rparr>)) (JStr ''444'') =
     Some (Map.empty(''barcode'' \<mapsto> JStr ''444'', ''name'' \<mapsto> JStr ''Daiquiri'',
             ''instructions'' \<mapsto> JStr ''Shake.'', ''image'' \<mapsto> JNull,
             ''date'' \<mapsto> JStr ''1970-01-01T00:00:01.001Z'')) \<and>
   alerts (UI_saveRecipe ex_toISOString (Inl UploadFailed) ex_io False ''444'' ''Daiquiri'' ''Shake.''
          (ex_world\<lparr>cloud := Some ex_cloud\<rparr>)) = [''Recipe saved!''] \<and>
   errlog (UI_saveRecipe ex_toISOString (Inl UploadFailed) ex_io False ''444'' ''Daiquiri'' ''Shake.''
          (ex_world\<lparr>cloud := Some ex_cloud\<rparr>)) = [(''Cloud save failed:'', RemoteFailed)] \<and>
   view (UI_saveRecipe ex_toISOString (Inl UploadFailed) ex_io False ''444'' ''Daiquiri'' ''Shake.''
          (ex_world\<lparr>cloud := Some ex_cloud\<rparr>)) = ''view-home''"
proof -
  have h: "''Daiquiri'' \<noteq> []" "accepted ex_io"
    "cloud (ex_world\<lparr>cloud := Some ex_cloud\<rparr>) = Some ex_cloud" "db ex_cloud"
    "truthy (userId ex_cloud)"
    by (simp_all add: ex_defs)
  show ?thesis
    using mirror_failure_is_silent [OF h, where upload = "Inl UploadFailed" and toISOString = ex_toISOString
        and barcode = "''444''" and instructions = "''Shake.''"]
    by (simp add: UI_saveRecipe_def UI_saveRecipe_image_def Settings_get_def
        RecipeStore_saveRecipe_def CloudStore_saveRecipe_def UI_switchView_def Let_def ex_defs)
qed

text \<open>
  \<^bold>\<open>C7\<close>. Let the user confirm the deletion of a record with the barcode \<open>b\<close>, and
  let the storage carry the local deletion out. Then the local store has no record
  under \<open>b\<close> and no alert is raised, whether there is a cloud handle or not and
  whether the remote call succeeds or not. With a cloud handle that is connected, the
  remote document \<open>b\<close> is deleted when the remote call succeeds, and when it is
  rejected the rejection is logged and the remote records are unchanged. Without a
  cloud handle, or with one that is not connected, nothing remote changes and
  nothing is logged.
\<close>

theorem confirmed_delete:
  assumes "recipe ''barcode'' = Some (JStr b)"
  shows "idb (UI_confirmDelete True True net recipe w) = (idb w)(JStr b := None) \<and>
         alerts (UI_confirmDelete True True net recipe w) = alerts w \<and>
         (case cloud w of
            None \<Rightarrow>
              fs_recipes (UI_confirmDelete True True net recipe w) = fs_recipes w \<and>
              errlog (UI_confirmDelete True True net recipe w) = errlog w
          | Some c \<Rightarrow>
              if \<not> db c \<or> \<not> truthy (userId c) then
                fs_recipes (UI_confirmDelete True True net recipe w) = fs_recipes w \<and>
                errlog (UI_confirmDelete True True net recipe w) = errlog w
              else if net then
                fs_recipes (UI_confirmDelete True True net recipe w) =
                  AList.delete b (fs_recipes w) \<and>
                errlog (UI_confirmDelete True True net recipe w) = errlog w
              else
                fs_recipes (UI_confirmDelete True True net recipe w) = fs_recipes w \<and>
                errlog (UI_confirmDelete True True net recipe w) =
                  errlog w @ [(''Cloud delete failed:'', RemoteFailed)])"
  using assms
  by (simp add: UI_confirmDelete_def RecipeStore_deleteRecipe_def CloudStore_deleteRecipe_def
      UI_switchView_def Let_def split: option.splits)

theorem confirmed_delete_witness:
  "idb (UI_confirmDelete True True False ex_A ex_sync) (JStr ''111'') = None \<and>
   idb (UI_confirmDelete True True False ex_A ex_sync) (JStr ''333'') = Some ex_C \<and>
   alerts (UI_confirmDelete True True False ex_A ex_sync) = [] \<and>
   errlog (UI_confirmDelete True True False ex_A ex_sync) = [(''Cloud delete failed:'', RemoteFailed)] \<and>
   fs_recipes (UI_confirmDelete True True True ex_A ex_sync) = [(''222'', ex_B)]"
  using confirmed_delete [where recipe = ex_A and b = "''111''" and net = False and w = ex_sync]
    confirmed_delete [where recipe = ex_A and b = "''111''" and net = True and w = ex_sync]
  by (simp add: ex_barcodes ex_sync_def ex_defs)

text \<open>
  \<^bold>\<open>C8\<close>. A save with an empty name only raises the alert
  \<^verbatim>\<open>Please enter a name\<close>: nothing else of the state changes, so the local store,
  the remote records and the active view are what they were, whatever the upload,
  the storage and the network would have answered.
\<close>

theorem empty_title_rejected:
  "UI_saveRecipe toISOString upload io net barcode [] instructions w =
     w\<lparr>alerts := alerts w @ [''Please enter a name'']\<rparr> \<and>
   idb (UI_saveRecipe toISOString upload io net barcode [] instructions w) = idb w \<and>
   fs_recipes (UI_saveRecipe toISOString upload io net barcode [] instructions w) = fs_recipes w \<and>
   view (UI_saveRecipe toISOString upload io net barcode [] instructions w) = view w"
  by (simp add: UI_saveRecipe_def)

theorem empty_title_rejected_witness:
  "UI_saveRecipe ex_toISOString (Inl UploadFailed) ex_io True ''444'' '''' ''Shake.''
     (ex_world\<lparr>cloud := Some ex_cloud\<rparr>) =
   ex_world\<lparr>cloud := Some ex_cloud, alerts := [''Please enter a name'']\<rparr> \<and>
   view (UI_saveRecipe ex_toISOString (Inl UploadFailed) ex_io True ''444'' '''' ''Shake.''
     (ex_world\<lparr>cloud := Some ex_cloud\<rparr>)) = ''view-recipe-entry''"
  using empty_title_rejected [where toISOString = ex_toISOString and upload = "Inl UploadFailed"
      and io = ex_io and net = True and barcode = "''444''" and instructions = "''Shake.''"
      and w = "ex_world\<lparr>cloud := Some ex_cloud\<rparr>"]
  by (simp add: ex_defs)

section \<open>The cloud handle\<close>

text \<open>
  \<^bold>\<open>C9\<close>. After \<^verbatim>\<open>initCloud\<close> the cloud handle is set if and only if the saved
  settings give a value to each of \<^verbatim>\<open>fbApiKey\<close>, \<^verbatim>\<open>fbProjectId\<close>,
  \<^verbatim>\<open>fbAppId\<close> and \<^verbatim>\<open>fbUserId\<close> (a truthy value: the settings form stores a
  field left blank as the empty string, which counts as missing). When it is set, it
  is set whether the connection could be initialised or not: callers can test its
  presence only. When it is not set, \<^verbatim>\<open>init\<close> starts no sync. With no cloud handle,
  the two syncs change nothing, and saving and deleting a recipe leave the remote
  records as they were and do not depend on what the network would have answered.
\<close>

theorem cloud_present_iff_configured:
  "(cloud (UI_initCloud init_ok w) \<noteq> None) =
     (truthy (Settings_get w ''fbApiKey'') \<and> truthy (Settings_get w ''fbProjectId'') \<and>
      truthy (Settings_get w ''fbAppId'') \<and> truthy (Settings_get w ''fbUserId'')) \<and>
   (cloud (UI_initCloud init_ok w) \<noteq> None \<longrightarrow>
      cloud (UI_initCloud init_ok w) =
        Some \<lparr>db = init_ok, userId = Settings_get w ''fbUserId''\<rparr>) \<and>
   (cloud (UI_initCloud init_ok w) = None \<longrightarrow>
      UI_init toISOString init_ok net ios net' w = UI_initCloud init_ok w) \<and>
   (cloud w = None \<longrightarrow>
      UI_syncWithCloud toISOString net ios w = w \<and> UI_syncSettingsWithCloud net w = w \<and>
      fs_recipes (UI_saveRecipe toISOString upload io net barcode name instructions w) = fs_recipes w \<and>
      UI_saveRecipe toISOString upload io net barcode name instructions w =
        UI_saveRecipe toISOString upload io (\<not> net) barcode name instructions w \<and>
      fs_recipes (UI_confirmDelete confirmed ok net recipe w) = fs_recipes w \<and>
      UI_confirmDelete confirmed ok net recipe w =
        UI_confirmDelete confirmed ok (\<not> net) recipe w)"
proof (intro conjI impI)
  show "(cloud (UI_initCloud init_ok w) \<noteq> None) =
     (truthy (Settings_get w ''fbApiKey'') \<and> truthy (Settings_get w ''fbProjectId'') \<and>
      truthy (Settings_get w ''fbAppId'') \<and> truthy (Settings_get w ''fbUserId''))"
    by (simp add: UI_initCloud_def Let_def)
  show "cloud (UI_initCloud init_ok w) =
        Some \<lparr>db = init_ok, userId = Settings_get w ''fbUserId''\<rparr>"
    if "cloud (UI_initCloud init_ok w) \<noteq> None"
    using that by (simp add: UI_initCloud_def Let_def CloudStore_constructor_def split: if_splits)
  show "UI_init toISOString init_ok net ios net' w = UI_initCloud init_ok w"
    if "cloud (UI_initCloud init_ok w) = None"
    using that by (simp add: UI_init_def Let_def)
next
  assume n: "cloud w = None"
  show "UI_syncWithCloud toISOString net ios w = w" using n by (simp add: UI_syncWithCloud_def)
  show "UI_syncSettingsWithCloud net w = w" using n by (simp add: UI_syncSettingsWithCloud_def)
  show "fs_recipes (UI_saveRecipe toISOString upload io net barcode name instructions w) = fs_recipes w"
    using UI_saveRecipe_no_cloud [OF n] by blast
  show "UI_saveRecipe toISOString upload io net barcode name instructions w =
        UI_saveRecipe toISOString upload io (\<not> net) barcode name instructions w"
    using UI_saveRecipe_no_cloud [OF n] by blast
  show "fs_recipes (UI_confirmDelete confirmed ok net recipe w) = fs_recipes w"
    using UI_confirmDelete_no_cloud [OF n] by blast
  show "UI_confirmDelete confirmed ok net recipe w =
        UI_confirmDelete confirmed ok (\<not> net) recipe w"
    using UI_confirmDelete_no_cloud [OF n] by blast
qed

theorem cloud_present_iff_configured_witness:
  "cloud (UI_initCloud True ex_configured) = Some ex_cloud \<and>
   cloud (UI_initCloud False ex_configured) = Some \<lparr>db = False, userId = Some (JStr ''u1'')\<rparr> \<and>
   cloud (UI_initCloud True ex_blank) = None \<and>
   cloud ex_world = None \<and>
   UI_syncWithCloud ex_toISOString True (\<lambda>i. ex_io) ex_world = ex_world"
  using cloud_present_iff_configured [where init_ok = True and w = ex_configured]
    cloud_present_iff_configured [where w = ex_world and toISOString = ex_toISOString and net = True
      and ios = "\<lambda>i. ex_io"]
  by (simp add: UI_initCloud_def Let_def CloudStore_constructor_def Settings_get_def
      ex_configured_def ex_blank_def ex_defs)

end
